theory Spec2Isabelle
  imports Complex_Main
begin

section \<open>Python values\<close>

text \<open>
  A Python \<open>str\<close> is a sequence of Unicode code points and \<open>len\<close> counts code points,
  so a string is a list of code points (natural numbers). Literals of the source are
  written as Isabelle strings and converted with \<open>py\<close>. Python's \<open>int\<close> is \<open>int\<close>.
  Similarities and vector components are Python floats; they are modelled by \<open>real\<close>,
  which keeps the comparisons of the source and leaves rounding error out.
\<close>

type_synonym pystr = "nat list"

definition py :: "string \<Rightarrow> pystr" where
  "py s = map of_char s"

text \<open>The code points that \<open>str.strip()\<close> removes (those with \<open>str.isspace\<close>).\<close>

definition is_space :: "nat \<Rightarrow> bool" where
  "is_space c =
     ((9 \<le> c \<and> c \<le> 13) \<or> (28 \<le> c \<and> c \<le> 32) \<or> c = 133 \<or> c = 160 \<or> c = 5760
      \<or> (8192 \<le> c \<and> c \<le> 8202) \<or> c = 8232 \<or> c = 8233 \<or> c = 8239 \<or> c = 8287
      \<or> c = 12288)"

definition strip :: "pystr \<Rightarrow> pystr" where
  "strip s = rev (dropWhile is_space (rev (dropWhile is_space s)))"

text \<open>
  Slicing \<open>xs[i:j]\<close> with Python's treatment of indices: a negative index counts from
  the end, and every index is clamped to the range of the sequence.
\<close>

definition clamp_index :: "int \<Rightarrow> int \<Rightarrow> int" where
  "clamp_index n i = (if i < 0 then max (n + i) 0 else min i n)"

definition slice :: "'a list \<Rightarrow> int \<Rightarrow> int \<Rightarrow> 'a list" where
  "slice xs i j =
     (let n = int (length xs); a = clamp_index n i; b = clamp_index n j
      in take (nat (b - a)) (drop (nat a) xs))"

text \<open>\<open>s.rfind(c)\<close> for a one-character \<open>c\<close>: the highest index of \<open>c\<close>, or \<open>-1\<close>.\<close>

fun rfind :: "'a list \<Rightarrow> 'a \<Rightarrow> int" where
  "rfind [] c = - 1"
| "rfind (x # xs) c =
     (let r = rfind xs c in if 0 \<le> r then r + 1 else if x = c then 0 else - 1)"

section \<open>Settings (\<open>app/config.py\<close>)\<close>

record settings =
  embedding_model_id :: pystr
  llm_model_id :: pystr
  chunk_size :: int
  chunk_overlap :: int
  top_k_results :: int

definition default_settings :: settings where
  "default_settings =
     \<lparr>embedding_model_id = py ''amazon.titan-embed-text-v1'',
      llm_model_id = py ''meta.llama3-8b-instruct-v1:0'',
      chunk_size = 500, chunk_overlap = 50, top_k_results = 5\<rparr>"

section \<open>Chunking (\<open>RAGPipeline._chunk_text\<close>)\<close>

text \<open>
  One pass of the loop body of \<open>_chunk_text\<close> up to the \<open>append\<close>: the window that
  starts at \<open>start\<close>, cut back to the last period or newline when the window does not
  reach the end of the text and that break point lies past the middle of the window.
  The result is the chunk before stripping and the value of \<open>end\<close>.
\<close>

definition window :: "int \<Rightarrow> pystr \<Rightarrow> int \<Rightarrow> pystr \<times> int" where
  "window csize text start =
     (let end = start + csize;
          chunk = slice text start end
      in if end < int (length text) then
           (let last_period = rfind chunk 46;
                last_newline = rfind chunk 10;
                break_point = max last_period last_newline
            in if break_point > csize div 2
               then (slice chunk 0 (break_point + 1), start + break_point + 1)
               else (chunk, end))
         else (chunk, end))"

text \<open>
  The \<open>while start < len(text)\<close> loop. Nothing in the source bounds the number of
  passes, so the loop is a partial function: \<open>None\<close> means that it never returns.
\<close>

partial_function (option) chunk_loop ::
  "int \<Rightarrow> int \<Rightarrow> pystr \<Rightarrow> int \<Rightarrow> pystr list \<Rightarrow> pystr list option" where
  "chunk_loop csize overlap text start chunks =
     (if start < int (length text) then
        (case window csize text start of
           (chunk, end) \<Rightarrow> chunk_loop csize overlap text (end - overlap) (chunks @ [strip chunk]))
      else Some chunks)"

definition chunk_text :: "settings \<Rightarrow> pystr \<Rightarrow> pystr list option" where
  "chunk_text s text =
     map_option (filter (\<lambda>c. c \<noteq> [] \<and> length c > 50))
       (chunk_loop (chunk_size s) (chunk_overlap s) text 0 [])"


section \<open>The store and the outside world\<close>

text \<open>
  Metadata is a JSON object (\<open>JSONB\<close> in the table, a \<open>dict\<close> in Python): a map from
  keys to JSON values.
\<close>

datatype jval = JNull | JBool bool | JInt int | JStr pystr

type_synonym metadata = "pystr \<rightharpoonup> jval"

text \<open>Every \<open>raise\<close> of the source, and every error of the store, is a value.\<close>

datatype error =
    OperationalError    \<comment> \<open>the store cannot be reached\<close>
  | DataError           \<comment> \<open>wrong vector dimension, negative \<open>LIMIT\<close>\<close>
  | UniqueViolation     \<comment> \<open>primary key \<open>id\<close> already present\<close>
  | ProgrammingError    \<comment> \<open>a value the driver cannot send, an operator the store does not have\<close>
  | TypeError           \<comment> \<open>query parameters that are not a sequence\<close>
  | RetryError          \<comment> \<open>three failed attempts of a provider call\<close>

text \<open>A row of the table \<open>document_chunks\<close> (\<open>init_db\<close> in \<open>app/db/database.py\<close>).\<close>

record chunk_row =
  chunk_id :: pystr
  document_id :: pystr
  content :: pystr
  embedding :: "real list"
  metadata :: metadata
  created_at :: nat

text \<open>
  What the code changes or observes: the committed rows of the table in insertion order,
  whether the store can be reached, whether another session holds the advisory lock, how
  many advisory locks this session holds, the time stamp that \<open>CURRENT_TIMESTAMP\<close>
  gives to the rows of the running transaction (it moves on at each commit), and how many
  times \<open>uuid.uuid4\<close>, the embedding model, \<open>Generator.generate\<close> and the language
  model have been called.
\<close>

record world =
  rows :: "chunk_row list"
  available :: bool
  lock_elsewhere :: bool
  locks_held :: nat
  clock :: nat
  uuid_draws :: nat
  embed_calls :: nat
  generate_calls :: nat
  llm_calls :: nat

text \<open>A document of \<open>sample_documents.json\<close>; a field is \<open>None\<close> when the key is absent.\<close>

record sample_doc =
  doc_title :: "pystr option"
  doc_content :: "pystr option"
  doc_metadata :: "metadata option"

text \<open>
  What the code calls but this repository does not define: \<open>uuid.uuid4\<close> (its
  \<open>n\<close>-th value), the two Bedrock models (the answer to the \<open>n\<close>-th call, \<open>None\<close>
  when the call raises), pgvector's distance \<open>\<open><=>\<close>\<close> (a real number: its NaN for a
  zero vector is outside the model), and the content of the sample file (\<open>None\<close> when
  it cannot be read).

  On the side of the database: whether the driver can send a Python list of floats as a
  \<open>vector\<close>, and a \<open>dict\<close> as \<open>JSONB\<close>; which rows a search visits through the
  \<open>ivfflat\<close> index that \<open>init_db\<close> builds; and in which order the store returns rows
  whose sort keys are equal (by rank, rows of one rank in the order of the table).
\<close>

record env =
  cfg :: settings
  uuid4 :: "nat \<Rightarrow> pystr"
  embed_model :: "nat \<Rightarrow> pystr \<Rightarrow> real list option"
  llm_model :: "nat \<Rightarrow> pystr \<Rightarrow> pystr option"
  cosine_distance :: "real list \<Rightarrow> real list \<Rightarrow> real"
  sample_documents :: "sample_doc list option"
  vector_adapter :: bool
  json_adapter :: bool
  index_probes :: "real list \<Rightarrow> chunk_row \<Rightarrow> bool"
  tie_rank :: "chunk_row \<Rightarrow> nat"

text \<open>
  The driver of \<open>app/db/database.py\<close> is psycopg 3. It sends a list of floats as an
  array of \<open>double precision\<close> and has no way to send a \<open>dict\<close>, unless an adapter or
  a wrapper is supplied with the value; the repository supplies none. \<open>as_shipped\<close> is
  an environment with the driver as the repository uses it.
\<close>

definition as_shipped :: "env \<Rightarrow> env" where
  "as_shipped e = e\<lparr>vector_adapter := False, json_adapter := False\<rparr>"

text \<open>
  The decorator \<open>@retry(stop=stop_after_attempt(3), ...)\<close>: the call is repeated until
  it returns, at most \<open>n\<close> times, and then \<open>RetryError\<close> is raised. The waiting time
  between attempts is not modelled.
\<close>

fun retry :: "nat \<Rightarrow> (world \<Rightarrow> 'a option \<times> world) \<Rightarrow> world \<Rightarrow> (error + 'a) \<times> world" where
  "retry 0 f w = (Inl RetryError, w)"
| "retry (Suc n) f w =
     (case f w of
        (Some a, w') \<Rightarrow> (Inr a, w')
      | (None, w') \<Rightarrow> retry n f w')"

section \<open>Embeddings (\<open>BedrockEmbeddings.embed_text\<close>)\<close>

definition embed_text :: "env \<Rightarrow> world \<Rightarrow> pystr \<Rightarrow> (error + real list) \<times> world" where
  "embed_text e w text =
     retry 3 (\<lambda>w. (embed_model e (embed_calls w) text, w\<lparr>embed_calls := Suc (embed_calls w)\<rparr>)) w"

section \<open>Vector store (\<open>app/db/vector_store.py\<close>)\<close>

text \<open>
  Each method is modelled by what its SQL statement does to the table. A store that
  cannot be reached makes the method raise on entry. \<open>commit\<close> ends the transaction; a
  method that raises before its \<open>commit\<close> leaves the committed rows as they were.
\<close>

definition commit :: "world \<Rightarrow> world" where
  "commit w = w\<lparr>clock := Suc (clock w)\<rparr>"

text \<open>
  \<open>INSERT INTO document_chunks\<close>: the column \<open>embedding vector(1536)\<close> refuses a vector
  of another dimension and the primary key refuses an \<open>id\<close> that is already there.
\<close>

definition insert_row :: "chunk_row list \<Rightarrow> chunk_row \<Rightarrow> error + chunk_row list" where
  "insert_row tbl r =
     (if length (embedding r) \<noteq> 1536 then Inl DataError
      else if chunk_id r \<in> set (map chunk_id tbl) then Inl UniqueViolation
      else Inr (tbl @ [r]))"

text \<open>An element of \<open>chunks_data\<close>; \<open>chunk_data.get('metadata', {})\<close> allows the key to be absent.\<close>

record chunk_data =
  cd_content :: pystr
  cd_embedding :: "real list"
  cd_metadata :: "metadata option"

definition new_row :: "pystr \<Rightarrow> pystr \<Rightarrow> chunk_data \<Rightarrow> nat \<Rightarrow> chunk_row" where
  "new_row cid doc cd ts =
     \<lparr>chunk_id = cid, document_id = doc, content = cd_content cd,
      embedding = cd_embedding cd,
      metadata = (case cd_metadata cd of None \<Rightarrow> Map.empty | Some m \<Rightarrow> m),
      created_at = ts\<rparr>"

text \<open>
  \<open>cur.execute\<close> of the \<open>INSERT\<close>: the metadata is passed as a \<open>dict\<close>, which the
  driver must be able to send; the embedding is a list, which the store casts to
  \<open>vector\<close> on assignment.
\<close>

definition execute_insert :: "env \<Rightarrow> chunk_row list \<Rightarrow> chunk_row \<Rightarrow> error + chunk_row list" where
  "execute_insert e tbl r = (if \<not> json_adapter e then Inl ProgrammingError else insert_row tbl r)"

text \<open>The \<open>for chunk_data in chunks_data\<close> loop of \<open>batch_add_chunks\<close>.\<close>

fun batch_loop ::
  "env \<Rightarrow> pystr \<Rightarrow> chunk_data list \<Rightarrow> world \<Rightarrow> pystr list \<Rightarrow> (error + pystr list) \<times> world" where
  "batch_loop e doc [] w chunk_ids = (Inr chunk_ids, w)"
| "batch_loop e doc (cd # cds) w chunk_ids =
     (let cid = uuid4 e (uuid_draws w);
          w1 = w\<lparr>uuid_draws := Suc (uuid_draws w)\<rparr>
      in case execute_insert e (rows w1) (new_row cid doc cd (clock w1)) of
           Inl err \<Rightarrow> (Inl err, w1)
         | Inr tbl \<Rightarrow> batch_loop e doc cds (w1\<lparr>rows := tbl\<rparr>) (chunk_ids @ [cid]))"

definition batch_add_chunks ::
  "env \<Rightarrow> world \<Rightarrow> pystr \<Rightarrow> chunk_data list \<Rightarrow> (error + pystr list) \<times> world" where
  "batch_add_chunks e w doc chunks_data =
     (if \<not> available w then (Inl OperationalError, w)
      else case batch_loop e doc chunks_data w [] of
             (Inl err, w') \<Rightarrow> (Inl err, w'\<lparr>rows := rows w\<rparr>)
           | (Inr chunk_ids, w') \<Rightarrow> (Inr chunk_ids, commit w'))"

text \<open>A row of the result of \<open>similarity_search\<close>.\<close>

record hit =
  hit_id :: pystr
  hit_document_id :: pystr
  hit_content :: pystr
  hit_metadata :: metadata
  hit_created_at :: nat
  similarity :: real

definition hit_of :: "env \<Rightarrow> real list \<Rightarrow> chunk_row \<Rightarrow> hit" where
  "hit_of e q r =
     \<lparr>hit_id = chunk_id r, hit_document_id = document_id r, hit_content = content r,
      hit_metadata = metadata r, hit_created_at = created_at r,
      similarity = 1 - cosine_distance e (embedding r) q\<rparr>"

text \<open>
  \<open>SELECT ..., 1 - (embedding <=> q) AS similarity ... ORDER BY embedding <=> q LIMIT k\<close>.
  The query embedding is passed as a list: unless the driver sends it as a \<open>vector\<close>,
  the store has no operator \<open>\<open><=>\<close>\<close> for it and refuses the statement. Otherwise the
  distance is taken between vectors of one dimension, \<open>LIMIT\<close> refuses a negative
  count, and the result is taken from the rows that the index lets the search visit.
\<close>

definition similarity_search :: "env \<Rightarrow> world \<Rightarrow> real list \<Rightarrow> int \<Rightarrow> error + hit list" where
  "similarity_search e w query_embedding top_k =
     (if \<not> available w then Inl OperationalError
      else if \<not> vector_adapter e then Inl ProgrammingError
      else if \<exists>r \<in> set (rows w). length (embedding r) \<noteq> length query_embedding then Inl DataError
      else if top_k < 0 then Inl DataError
      else Inr (take (nat top_k)
             (map (hit_of e query_embedding)
                (sort_key (\<lambda>r. cosine_distance e (embedding r) query_embedding)
                   (filter (index_probes e query_embedding) (rows w))))))"

definition delete_by_document_id :: "world \<Rightarrow> pystr \<Rightarrow> (error + int) \<times> world" where
  "delete_by_document_id w doc =
     (if \<not> available w then (Inl OperationalError, w)
      else (Inr (int (length (filter (\<lambda>r. document_id r = doc) (rows w)))),
            commit (w\<lparr>rows := filter (\<lambda>r. document_id r \<noteq> doc) (rows w)\<rparr>)))"

definition get_chunk_count :: "world \<Rightarrow> error + int" where
  "get_chunk_count w = (if \<not> available w then Inl OperationalError else Inr (int (length (rows w))))"

text \<open>A row of the result of \<open>get_document_chunks\<close>.\<close>

record doc_chunk =
  dc_id :: pystr
  dc_content :: pystr
  dc_metadata :: metadata
  dc_created_at :: nat

definition doc_chunk_of :: "chunk_row \<Rightarrow> doc_chunk" where
  "doc_chunk_of r =
     \<lparr>dc_id = chunk_id r, dc_content = content r, dc_metadata = metadata r,
      dc_created_at = created_at r\<rparr>"

text \<open>
  \<open>SELECT ... WHERE document_id = d ORDER BY created_at\<close>. The rows of one batch carry
  one time stamp, that of their transaction, and SQL leaves the order of rows with equal
  \<open>created_at\<close> to the store: the rows come sorted by \<open>created_at\<close>, and those with one
  time stamp in the order that \<open>tie_rank\<close> gives them.
\<close>

definition get_document_chunks :: "env \<Rightarrow> world \<Rightarrow> pystr \<Rightarrow> error + doc_chunk list" where
  "get_document_chunks e w doc =
     (if \<not> available w then Inl OperationalError
      else Inr (map doc_chunk_of
             (sort_key created_at
                (sort_key (tie_rank e) (filter (\<lambda>r. document_id r = doc) (rows w))))))"

text \<open>
  \<open>create_vector_index\<close>: from 1000 rows on it executes \<open>CREATE INDEX\<close> with the
  parameters \<open>(min(count // 1000, 100))\<close>, which is an \<open>int\<close> and not a tuple, and the
  driver raises; below 1000 rows it commits.
\<close>

definition create_vector_index :: "world \<Rightarrow> (error + unit) \<times> world" where
  "create_vector_index w =
     (if \<not> available w then (Inl OperationalError, w)
      else if int (length (rows w)) \<ge> 1000 then (Inl TypeError, w)
      else (Inr (), commit w))"

section \<open>Retriever (\<open>Retriever.retrieve\<close>)\<close>

text \<open>
  Every row of the search result has the key \<open>similarity\<close>, so the default of
  \<open>result.get('similarity', 0)\<close> is never used.
\<close>

definition retrieve :: "env \<Rightarrow> world \<Rightarrow> pystr \<Rightarrow> int \<Rightarrow> (error + hit list) \<times> world" where
  "retrieve e w query top_k =
     (case embed_text e w query of
        (Inl err, w') \<Rightarrow> (Inl err, w')
      | (Inr query_embedding, w') \<Rightarrow>
          (case similarity_search e w' query_embedding top_k of
             Inl err \<Rightarrow> (Inl err, w')
           | Inr results \<Rightarrow> (Inr (filter (\<lambda>result. similarity result > 1 / 10) results), w')))"

section \<open>Generator (\<open>BedrockGenerator\<close>)\<close>

definition fallback_answer :: pystr where
  "fallback_answer = py ''I couldn't find any relevant information to answer your question.''"

definition nl :: pystr where
  "nl = [10]"

text \<open>\<open>str(n)\<close> for a natural number and \<open>sep.join(xs)\<close>.\<close>

fun str_nat :: "nat \<Rightarrow> pystr" where
  "str_nat n = (if n < 10 then [48 + n] else str_nat (n div 10) @ [48 + n mod 10])"

fun join :: "pystr \<Rightarrow> pystr list \<Rightarrow> pystr" where
  "join sep [] = []"
| "join sep [x] = x"
| "join sep (x # y # ys) = x @ sep @ join sep (y # ys)"

definition build_prompt :: "pystr \<Rightarrow> hit list \<Rightarrow> pystr" where
  "build_prompt query context_chunks =
     (let context = join (nl @ nl)
            (map (\<lambda>(i, chunk). py ''Document '' @ str_nat (i + 1) @ py '':'' @ nl @ hit_content chunk)
               (zip [0 ..< length context_chunks] context_chunks))
      in py ''<|begin_of_text|><|start_header_id|>system<|end_header_id|>'' @ nl @ nl
         @ py ''You are a helpful AI assistant. Answer the user's question based on the provided context. '' @ nl
         @ py ''If the context doesn't contain enough information to answer the question, say so.'' @ nl
         @ py ''Be concise and accurate in your responses.'' @ nl
         @ py ''Only use information from the provided context.'' @ nl @ nl
         @ py ''Context:'' @ nl
         @ context @ nl
         @ py ''<|eot_id|><|start_header_id|>user<|end_header_id|>'' @ nl @ nl
         @ query @ py ''<|eot_id|><|start_header_id|>assistant<|end_header_id|>'' @ nl @ nl)"

text \<open>
  One attempt of \<open>generate\<close>, and \<open>generate\<close> under its retry decorator. The call of
  \<open>generate\<close> is counted in \<open>generate_calls\<close>, each call of the model in \<open>llm_calls\<close>.
\<close>

definition generate_once :: "env \<Rightarrow> pystr \<Rightarrow> hit list \<Rightarrow> world \<Rightarrow> pystr option \<times> world" where
  "generate_once e query context_chunks w =
     (if context_chunks = [] then (Some fallback_answer, w)
      else (map_option strip (llm_model e (llm_calls w) (build_prompt query context_chunks)),
            w\<lparr>llm_calls := Suc (llm_calls w)\<rparr>))"

definition generate :: "env \<Rightarrow> world \<Rightarrow> pystr \<Rightarrow> hit list \<Rightarrow> (error + pystr) \<times> world" where
  "generate e w query context_chunks =
     retry 3 (generate_once e query context_chunks) (w\<lparr>generate_calls := Suc (generate_calls w)\<rparr>)"

section \<open>Pipeline (\<open>RAGPipeline\<close>)\<close>

record source =
  src_content :: pystr
  src_metadata :: metadata
  src_similarity :: real

record response =
  answer :: pystr
  sources :: "source list"
  query_text :: pystr

text \<open>
  \<open>round(x, ndigits)\<close> on a real number: the nearest multiple of \<open>10 ^ -ndigits\<close>,
  a tie going to the even one.
\<close>

definition round_half_even :: "real \<Rightarrow> int" where
  "round_half_even x =
     (let f = \<lfloor>x\<rfloor>; d = x - of_int f
      in if d < 1 / 2 then f else if d > 1 / 2 then f + 1 else if even f then f else f + 1)"

definition py_round :: "real \<Rightarrow> nat \<Rightarrow> real" where
  "py_round x ndigits = of_int (round_half_even (x * 10 ^ ndigits)) / 10 ^ ndigits"

definition format_source :: "hit \<Rightarrow> source" where
  "format_source chunk =
     \<lparr>src_content = (if length (hit_content chunk) > 200
                      then slice (hit_content chunk) 0 200 @ py ''...''
                      else hit_content chunk),
      src_metadata = hit_metadata chunk,
      src_similarity = py_round (similarity chunk) 3\<rparr>"

definition query :: "env \<Rightarrow> world \<Rightarrow> pystr \<Rightarrow> int option \<Rightarrow> (error + response) \<times> world" where
  "query e w q top_k =
     (let k = (case top_k of None \<Rightarrow> top_k_results (cfg e) | Some k \<Rightarrow> k)
      in case retrieve e w q k of
           (Inl err, w1) \<Rightarrow> (Inl err, w1)
         | (Inr chunks, w1) \<Rightarrow>
             if chunks = [] then
               (Inr \<lparr>answer = fallback_answer, sources = [], query_text = q\<rparr>, w1)
             else
               (case generate e w1 q chunks of
                  (Inl err, w2) \<Rightarrow> (Inl err, w2)
                | (Inr a, w2) \<Rightarrow>
                    (Inr \<lparr>answer = a, sources = map format_source chunks, query_text = q\<rparr>, w2)))"

text \<open>The \<open>for chunk in chunks\<close> loop of \<open>ingest_document\<close>, which builds \<open>chunks_data\<close>.\<close>

fun embed_chunks ::
  "env \<Rightarrow> world \<Rightarrow> pystr \<Rightarrow> metadata \<Rightarrow> pystr list \<Rightarrow> chunk_data list
     \<Rightarrow> (error + chunk_data list) \<times> world" where
  "embed_chunks e w doc md [] chunks_data = (Inr chunks_data, w)"
| "embed_chunks e w doc md (chunk # chunks) chunks_data =
     (case embed_text e w chunk of
        (Inl err, w') \<Rightarrow> (Inl err, w')
      | (Inr emb, w') \<Rightarrow>
          embed_chunks e w' doc md chunks
            (chunks_data @
              [\<lparr>cd_content = chunk, cd_embedding = emb,
                cd_metadata = Some (md(py ''document_id'' \<mapsto> JStr doc,
                                       py ''chunk_index'' \<mapsto> JInt (int (length chunks_data))))\<rparr>]))"

text \<open>
  \<open>ingest_document\<close>. \<open>None\<close> means that the call never returns (the chunking loop
  does not end); otherwise the result is the document id or the error raised.
\<close>

definition ingest_document ::
  "env \<Rightarrow> world \<Rightarrow> pystr \<Rightarrow> metadata option \<Rightarrow> ((error + pystr) \<times> world) option" where
  "ingest_document e w text md =
     (let doc = uuid4 e (uuid_draws w);
          w1 = w\<lparr>uuid_draws := Suc (uuid_draws w)\<rparr>;
          md' = (case md of None \<Rightarrow> Map.empty | Some m \<Rightarrow> m)
      in case chunk_text (cfg e) text of
           None \<Rightarrow> None
         | Some chunks \<Rightarrow>
             Some (case embed_chunks e w1 doc md' chunks [] of
                (Inl err, w2) \<Rightarrow> (Inl err, w2)
              | (Inr chunks_data, w2) \<Rightarrow>
                  (case batch_add_chunks e w2 doc chunks_data of
                     (Inl err, w3) \<Rightarrow> (Inl err, w3)
                   | (Inr chunk_ids, w3) \<Rightarrow>
                       (case get_chunk_count w3 of
                          Inl err \<Rightarrow> (Inl err, w3)
                        | Inr n \<Rightarrow>
                            if n \<ge> 1000 then
                              (case create_vector_index w3 of
                                 (Inl err, w4) \<Rightarrow> (Inl err, w4)
                               | (Inr _, w4) \<Rightarrow> (Inr doc, w4))
                            else (Inr doc, w3)))))"

text \<open>\<open>delete_document\<close> catches every exception of the store and returns \<open>False\<close>.\<close>

definition delete_document :: "world \<Rightarrow> pystr \<Rightarrow> bool \<times> world" where
  "delete_document w doc =
     (case delete_by_document_id w doc of
        (Inr deleted_count, w') \<Rightarrow> (True, w')
      | (Inl err, w') \<Rightarrow> (False, w'))"

text \<open>The result of \<open>get_document\<close>; \<open>None\<close> is the empty dictionary of the \<open>except\<close> branch.\<close>

record document_view =
  dv_document_id :: pystr
  dv_chunks :: "doc_chunk list"
  dv_chunk_count :: int

definition get_document :: "env \<Rightarrow> world \<Rightarrow> pystr \<Rightarrow> document_view option" where
  "get_document e w doc =
     (case get_document_chunks e w doc of
        Inr chunks \<Rightarrow>
          Some \<lparr>dv_document_id = doc, dv_chunks = chunks, dv_chunk_count = int (length chunks)\<rparr>
      | Inl err \<Rightarrow> None)"

record stats =
  total_chunks :: int
  embedding_model :: pystr
  llm_model_name :: pystr
  stats_chunk_size :: int
  stats_chunk_overlap :: int

definition get_stats :: "env \<Rightarrow> world \<Rightarrow> stats option" where
  "get_stats e w =
     (case get_chunk_count w of
        Inr n \<Rightarrow>
          Some \<lparr>total_chunks = n, embedding_model = embedding_model_id (cfg e),
                llm_model_name = llm_model_id (cfg e), stats_chunk_size = chunk_size (cfg e),
                stats_chunk_overlap = chunk_overlap (cfg e)\<rparr>
      | Inl err \<Rightarrow> None)"

section \<open>Seeding (\<open>app/seed/corpus.py\<close>, \<open>app/db/database.py\<close>)\<close>

text \<open>
  \<open>pg_try_advisory_lock\<close> does not wait: it fails when another session holds the lock
  and succeeds otherwise, also when this session holds it already.
\<close>

definition acquire_advisory_lock :: "world \<Rightarrow> (error + bool) \<times> world" where
  "acquire_advisory_lock w =
     (if \<not> available w then (Inl OperationalError, w)
      else if lock_elsewhere w then (Inr False, w)
      else (Inr True, w\<lparr>locks_held := Suc (locks_held w)\<rparr>))"

definition release_advisory_lock :: "world \<Rightarrow> (error + unit) \<times> world" where
  "release_advisory_lock w =
     (if \<not> available w then (Inl OperationalError, w)
      else (Inr (), w\<lparr>locks_held := locks_held w - 1\<rparr>))"

text \<open>
  The \<open>for doc in documents\<close> loop of \<open>seed_corpus\<close>. A document without \<open>content\<close>
  raises \<open>KeyError\<close> before \<open>ingest_document\<close> is entered; that and every error of
  \<open>ingest_document\<close> are caught and the document is skipped.
\<close>

definition seed_metadata :: "sample_doc \<Rightarrow> metadata" where
  "seed_metadata d =
     [py ''title'' \<mapsto> JStr (case doc_title d of None \<Rightarrow> [] | Some t \<Rightarrow> t)]
       ++ (case doc_metadata d of None \<Rightarrow> Map.empty | Some m \<Rightarrow> m)"

fun seed_loop :: "env \<Rightarrow> world \<Rightarrow> sample_doc list \<Rightarrow> int \<Rightarrow> (int \<times> world) option" where
  "seed_loop e w [] ingested_count = Some (ingested_count, w)"
| "seed_loop e w (d # ds) ingested_count =
     (case doc_content d of
        None \<Rightarrow> seed_loop e w ds ingested_count
      | Some text \<Rightarrow>
          (case ingest_document e w text (Some (seed_metadata d)) of
             None \<Rightarrow> None
           | Some (Inl err, w') \<Rightarrow> seed_loop e w' ds ingested_count
           | Some (Inr doc_id, w') \<Rightarrow> seed_loop e w' ds (ingested_count + 1)))"

text \<open>
  \<open>seed_corpus\<close>: the lock is taken outside the \<open>try\<close>; a sample file that cannot be
  read ends in the outer \<open>except\<close> with the result 0; \<open>finally\<close> releases the lock.
  The statistics read after the loop are only logged.
\<close>

definition seed_corpus :: "env \<Rightarrow> world \<Rightarrow> ((error + int) \<times> world) option" where
  "seed_corpus e w =
     (case acquire_advisory_lock w of
        (Inl err, w0) \<Rightarrow> Some (Inl err, w0)
      | (Inr False, w0) \<Rightarrow> Some (Inr 0, w0)
      | (Inr True, w1) \<Rightarrow>
          (case (case sample_documents e of
                   None \<Rightarrow> Some (0, w1)
                 | Some documents \<Rightarrow> seed_loop e w1 documents 0) of
             None \<Rightarrow> None
           | Some (ingested_count, w2) \<Rightarrow>
               (case release_advisory_lock w2 of
                  (Inl err, w3) \<Rightarrow> Some (Inl err, w3)
                | (Inr _, w3) \<Rightarrow> Some (Inr ingested_count, w3))))"

definition seed_corpus_if_empty :: "env \<Rightarrow> world \<Rightarrow> ((error + int) \<times> world) option" where
  "seed_corpus_if_empty e w =
     (let total = (case get_stats e w of None \<Rightarrow> 0 | Some st \<Rightarrow> total_chunks st)
      in if total = 0 then seed_corpus e w else Some (Inr 0, w))"

section \<open>Concrete inputs\<close>

text \<open>
  A configuration with an overlap of 60 characters on chunks of 100, and a text whose
  first window of 100 characters has its last period at index 59.
\<close>

definition stuck_settings :: settings where
  "stuck_settings = default_settings\<lparr>chunk_size := 100, chunk_overlap := 60\<rparr>"

definition stuck_text :: pystr where
  "stuck_text = replicate 59 97 @ py ''.'' @ replicate 100 97"

text \<open>Sixty letters between two blanks and a newline.\<close>

definition padded_text :: pystr where
  "padded_text = py ''  '' @ replicate 60 97 @ nl"

text \<open>
  The cosine distance of two vectors, for the concrete stores below, and vectors of
  dimension 1536 that are zero from the third component on.
\<close>

definition dot :: "real list \<Rightarrow> real list \<Rightarrow> real" where
  "dot a b = sum_list (map2 (*) a b)"

definition cosine :: "real list \<Rightarrow> real list \<Rightarrow> real" where
  "cosine a b = 1 - dot a b / (sqrt (dot a a) * sqrt (dot b b))"

definition vec2 :: "real \<Rightarrow> real \<Rightarrow> real list" where
  "vec2 x y = x # y # replicate 1534 0"

text \<open>
  An environment in which both models always answer, every text is embedded as the
  first unit vector, the sample file holds one document of sixty letters, the driver
  has both adapters, a search visits every row, and rows with equal sort keys come in
  the order of the table.
\<close>

definition demo_env :: env where
  "demo_env =
     \<lparr>cfg = default_settings,
      uuid4 = (\<lambda>n. py ''id-'' @ str_nat n),
      embed_model = (\<lambda>n t. Some (vec2 1 0)),
      llm_model = (\<lambda>n prompt. Some (py '' An answer. '')),
      cosine_distance = cosine,
      sample_documents =
        Some [\<lparr>doc_title = Some (py ''Sample''), doc_content = Some padded_text,
               doc_metadata = None\<rparr>],
      vector_adapter = True, json_adapter = True,
      index_probes = (\<lambda>q r. True),
      tie_rank = (\<lambda>r. 0)\<rparr>"

text \<open>The same environment with the driver as the repository uses it.\<close>

definition shipped_env :: env where
  "shipped_env = as_shipped demo_env"

text \<open>That environment with a sample file whose only document is a short sentence.\<close>

definition short_env :: env where
  "short_env =
     shipped_env\<lparr>sample_documents :=
       Some [\<lparr>doc_title = Some (py ''Note''), doc_content = Some (py ''A short note.''),
              doc_metadata = None\<rparr>]\<rparr>"

definition empty_world :: world where
  "empty_world =
     \<lparr>rows = [], available = True, lock_elsewhere = False, locks_held = 0, clock = 0,
      uuid_draws = 0, embed_calls = 0, generate_calls = 0, llm_calls = 0\<rparr>"

text \<open>
  A store with three chunks of two documents. Against the query vector \<open>vec2 1 0\<close>
  their similarities are \<open>20 / 29\<close>, \<open>0\<close> and \<open>1\<close>; the first chunk has 201 characters.
\<close>

definition row_a :: chunk_row where
  "row_a = \<lparr>chunk_id = py ''c-a'', document_id = py ''d-1'', content = replicate 201 97,
            embedding = vec2 (20 / 29) (21 / 29), metadata = Map.empty, created_at = 0\<rparr>"

definition row_b :: chunk_row where
  "row_b = \<lparr>chunk_id = py ''c-b'', document_id = py ''d-1'', content = replicate 80 98,
            embedding = vec2 0 1, metadata = Map.empty, created_at = 0\<rparr>"

definition row_c :: chunk_row where
  "row_c = \<lparr>chunk_id = py ''c-c'', document_id = py ''d-2'', content = replicate 60 99,
            embedding = vec2 1 0, metadata = Map.empty, created_at = 1\<rparr>"

definition demo_world :: world where
  "demo_world = empty_world\<lparr>rows := [row_a, row_b, row_c], clock := 2\<rparr>"

text \<open>Two chunk records.\<close>

definition demo_chunks_data :: "chunk_data list" where
  "demo_chunks_data =
     [\<lparr>cd_content = replicate 60 97, cd_embedding = vec2 1 0, cd_metadata = None\<rparr>,
      \<lparr>cd_content = replicate 70 98, cd_embedding = vec2 0 1, cd_metadata = None\<rparr>]"

text \<open>
  The environment \<open>demo_env\<close> with a store that returns the chunk \<open>c-a\<close> after the
  other rows of its time stamp.
\<close>

definition late_a_env :: env where
  "late_a_env = demo_env\<lparr>tie_rank := (\<lambda>r. if chunk_id r = py ''c-a'' then 1 else 0)\<rparr>"

section \<open>The chunker\<close>

declare chunk_loop.simps [code]

subsection \<open>Stripping\<close>

lemma dropWhile_hd: "dropWhile P xs \<noteq> [] \<Longrightarrow> \<not> P (hd (dropWhile P xs))"
  by (metis hd_dropWhile)

lemma strip_ends:
  assumes "strip s \<noteq> []"
  shows "\<not> is_space (hd (strip s)) \<and> \<not> is_space (last (strip s))"
proof -
  define t where "t = dropWhile is_space s"
  define u where "u = dropWhile is_space (rev t)"
  have su: "strip s = rev u" by (simp add: strip_def t_def u_def)
  with assms have u: "u \<noteq> []" by simp
  then have hu: "\<not> is_space (hd u)" unfolding u_def by (rule dropWhile_hd)
  from u have t: "t \<noteq> []" by (auto simp: u_def)
  then have ht: "\<not> is_space (hd t)" unfolding t_def by (rule dropWhile_hd)
  obtain p where p: "rev t = p @ u"
    by (metis takeWhile_dropWhile_id u_def)
  from p u have "last u = last (rev t)" by simp
  also have "\<dots> = hd t" using t by (simp add: last_rev)
  finally have "hd (rev u) = hd t" using u by (simp add: hd_rev)
  moreover have "last (rev u) = hd u" using u by (simp add: last_rev)
  ultimately show ?thesis using hu ht su by simp
qed

lemma strip_fixed:
  assumes "s \<noteq> [] \<Longrightarrow> \<not> is_space (hd s) \<and> \<not> is_space (last s)"
  shows "strip s = s"
proof (cases s)
  case Nil then show ?thesis by (simp add: strip_def)
next
  case (Cons a as)
  with assms have h: "\<not> is_space (hd s)" and l: "\<not> is_space (last s)" by auto
  from h Cons have 1: "dropWhile is_space s = s" by simp
  from Cons have "hd (rev s) = last s" by (simp add: hd_rev)
  with l Cons have 2: "dropWhile is_space (rev s) = rev s"
    by (cases "rev s") auto
  show ?thesis by (simp add: strip_def 1 2)
qed

lemma strip_idem: "strip (strip s) = strip s"
  by (rule strip_fixed) (rule strip_ends)

subsection \<open>The loop\<close>

text \<open>An invariant of the loop holds of what the loop returns.\<close>

lemma chunk_loop_invariant:
  assumes run: "chunk_loop csize overlap t start chunks = Some ys"
    and init: "I start chunks"
    and step: "\<And>st acc chunk e. I st acc \<Longrightarrow> st < int (length t) \<Longrightarrow>
                 window csize t st = (chunk, e) \<Longrightarrow> I (e - overlap) (acc @ [strip chunk])"
  shows "\<exists>st. I st ys \<and> \<not> st < int (length t)"
proof -
  let ?Q = "\<lambda>cs ov tx st acc res.
      cs = csize \<and> ov = overlap \<and> tx = t \<and> I st acc \<longrightarrow> (\<exists>st'. I st' res \<and> \<not> st' < int (length t))"
  have "?Q csize overlap t start chunks ys"
  proof (rule chunk_loop.raw_induct [where P = ?Q, OF _ run])
    fix loop :: "int \<Rightarrow> int \<Rightarrow> pystr \<Rightarrow> int \<Rightarrow> pystr list \<Rightarrow> pystr list option"
    fix cs ov tx st and acc res :: "pystr list"
    assume IH: "\<And>a b c d e y. loop a b c d e = Some y \<Longrightarrow> ?Q a b c d e y"
    assume body: "(if st < int (length tx) then
        (case window cs tx st of
           (chunk, e) \<Rightarrow> loop cs ov tx (e - ov) (acc @ [strip chunk]))
      else Some acc) = Some res"
    show "?Q cs ov tx st acc res"
    proof (intro impI, elim conjE)
      assume eqs: "cs = csize" "ov = overlap" "tx = t" and inv: "I st acc"
      show "\<exists>st'. I st' res \<and> \<not> st' < int (length t)"
      proof (cases "st < int (length t)")
        case True
        obtain chunk e where w: "window csize t st = (chunk, e)" by (cases "window csize t st")
        from body True w eqs
        have "loop csize overlap t (e - overlap) (acc @ [strip chunk]) = Some res"
          by simp
        then have "?Q csize overlap t (e - overlap) (acc @ [strip chunk]) res" by (rule IH)
        moreover have "I (e - overlap) (acc @ [strip chunk])" using inv True w by (rule step)
        ultimately show ?thesis by simp
      next
        case False
        with body eqs have "res = acc" by simp
        with inv False show ?thesis by blast
      qed
    qed
  qed
  with init show ?thesis by simp
qed

lemma chunk_loop_stripped:
  assumes "chunk_loop csize overlap t start chunks = Some ys"
    and "\<forall>c \<in> set chunks. strip c = c"
  shows "\<forall>c \<in> set ys. strip c = c"
proof -
  have "\<exists>st. (\<forall>c \<in> set ys. strip c = c) \<and> \<not> st < int (length t)"
    by (rule chunk_loop_invariant [OF assms(1), where I = "\<lambda>_ acc. \<forall>c \<in> set acc. strip c = c"])
       (use assms(2) in \<open>auto simp: strip_idem\<close>)
  then show ?thesis by blast
qed

lemma chunk_text_stripped:
  assumes "chunk_text s t = Some chunks" and "c \<in> set chunks"
  shows "strip c = c" and "c \<noteq> []" and "length c > 50"
proof -
  from assms(1) obtain ys where run: "chunk_loop (chunk_size s) (chunk_overlap s) t 0 [] = Some ys"
    and chunks: "chunks = filter (\<lambda>c. c \<noteq> [] \<and> length c > 50) ys"
    by (auto simp: chunk_text_def)
  from chunk_loop_stripped [OF run] have "\<forall>c \<in> set ys. strip c = c" by simp
  with assms(2) chunks show "strip c = c" and "c \<noteq> []" and "length c > 50" by auto
qed

text \<open>
  C6: every chunk that \<open>_chunk_text\<close> returns is stripped (stripping it again changes
  nothing, and it neither starts nor ends with white space), is not empty and has more
  than 50 characters; the empty text gives the empty list of chunks.
\<close>

theorem chunk_text_output:
  "(\<forall>chunks. chunk_text s t = Some chunks \<longrightarrow>
      (\<forall>c \<in> set chunks. strip c = c \<and> c \<noteq> [] \<and> \<not> is_space (hd c) \<and> \<not> is_space (last c)
         \<and> length c > 50))
   \<and> chunk_text s [] = Some []"
proof (intro conjI allI impI ballI)
  fix chunks c
  assume run: "chunk_text s t = Some chunks" and c: "c \<in> set chunks"
  from chunk_text_stripped [OF run c]
  show sc: "strip c = c" and ne: "c \<noteq> []" and "length c > 50" .
  from ne sc have "strip c \<noteq> []" by simp
  from strip_ends [OF this] sc show "\<not> is_space (hd c)" and "\<not> is_space (last c)" by simp_all
next
  show "chunk_text s [] = Some []"
    by (simp add: chunk_text_def chunk_loop.simps)
qed

lemma padded_text_chunks: "chunk_text default_settings padded_text = Some [replicate 60 97]"
  by code_simp

theorem chunk_text_output_witness:
  "chunk_text default_settings padded_text = Some [replicate 60 97]
   \<and> strip (replicate 60 97) = replicate 60 97
   \<and> replicate 60 (97::nat) \<noteq> []
   \<and> \<not> is_space (hd (replicate 60 97)) \<and> \<not> is_space (last (replicate 60 97))
   \<and> length (replicate 60 (97::nat)) > 50
   \<and> chunk_text default_settings [] = Some []"
  using chunk_text_output [of default_settings padded_text] padded_text_chunks
  by simp

subsection \<open>When the loop ends and when it does not\<close>

text \<open>
  The window advances when the overlap is below the chunk size and at most one more
  than half of it; then the loop returns for every text and every start.
\<close>

lemma window_end:
  assumes "window csize t st = (chunk, e)"
  shows "e = st + csize \<or> e \<ge> st + csize div 2 + 2"
  using assms by (auto simp: window_def Let_def split: if_splits)

lemma chunk_loop_terminates:
  assumes "overlap < csize" and "overlap \<le> csize div 2 + 1"
  shows "\<exists>ys. chunk_loop csize overlap t start chunks = Some ys"
proof (induction "nat (int (length t) - start)" arbitrary: start chunks rule: less_induct)
  case less
  show ?case
  proof (cases "start < int (length t)")
    case False
    then show ?thesis by (subst chunk_loop.simps) simp
  next
    case True
    obtain chunk e where w: "window csize t start = (chunk, e)" by (cases "window csize t start")
    from window_end [OF w] assms have "e - overlap > start" by auto
    with True have "nat (int (length t) - (e - overlap)) < nat (int (length t) - start)" by simp
    then obtain ys where "chunk_loop csize overlap t (e - overlap) (chunks @ [strip chunk]) = Some ys"
      using less by blast
    with True w show ?thesis by (subst chunk_loop.simps) simp
  qed
qed

corollary chunk_text_returns:
  assumes "chunk_overlap s < chunk_size s" and "chunk_overlap s \<le> chunk_size s div 2 + 1"
  shows "\<exists>chunks. chunk_text s t = Some chunks"
  using chunk_loop_terminates [OF assms, of t 0 "[]"] by (auto simp: chunk_text_def)

lemma chunk_text_default_returns: "\<exists>chunks. chunk_text default_settings t = Some chunks"
  by (rule chunk_text_returns) (simp_all add: default_settings_def)

lemma stuck_window: "window 100 stuck_text 0 = (replicate 59 97 @ py ''.'', 60)"
  by code_simp

lemma chunk_loop_stuck: "chunk_loop 100 60 stuck_text 0 chunks = None"
proof (rule ccontr)
  assume "chunk_loop 100 60 stuck_text 0 chunks \<noteq> None"
  then obtain ys where run: "chunk_loop 100 60 stuck_text 0 chunks = Some ys" by blast
  have "\<exists>st. st = 0 \<and> \<not> st < int (length stuck_text)"
    by (rule chunk_loop_invariant [OF run, where I = "\<lambda>st _. st = 0"])
       (simp_all add: stuck_window)
  then show False by (simp add: stuck_text_def)
qed

text \<open>
  C3: with a chunk size of 100 and an overlap of 60, which is below the chunk size,
  \<open>_chunk_text\<close> does not return on \<open>stuck_text\<close>: the first window is cut after the
  period at index 59, so \<open>end\<close> is 60 and the next \<open>start\<close> is 0 again.
\<close>

theorem chunk_text_diverges:
  "chunk_overlap stuck_settings < chunk_size stuck_settings
   \<and> chunk_text stuck_settings stuck_text = None"
  by (simp add: chunk_text_def chunk_loop_stuck stuck_settings_def default_settings_def)

section \<open>Concrete vectors\<close>

lemma dot_vec2: "dot (vec2 a b) (vec2 c d) = a * c + b * d"
  by (simp add: dot_def vec2_def zip_replicate sum_list_replicate)

lemma cosine_vec2:
  "cosine (vec2 a b) (vec2 c d) = 1 - (a * c + b * d) / (sqrt (a * a + b * b) * sqrt (c * c + d * d))"
  by (simp add: cosine_def dot_vec2)

lemma length_vec2: "length (vec2 a b) = 1536"
  by (simp add: vec2_def)

lemma distance_row_a: "cosine (vec2 (20 / 29) (21 / 29)) (vec2 1 0) = 9 / 29"
  by (simp add: cosine_vec2)

lemma distance_row_b: "cosine (vec2 0 1) (vec2 1 0) = 1"
  by (simp add: cosine_vec2)

lemma distance_row_c: "cosine (vec2 1 0) (vec2 1 0) = 0"
  by (simp add: cosine_vec2)

lemma demo_embed_text:
  "embed_text demo_env w t = (Inr (vec2 1 0), w\<lparr>embed_calls := Suc (embed_calls w)\<rparr>)"
  by (simp add: embed_text_def demo_env_def eval_nat_numeral)

lemma demo_driver:
  "vector_adapter demo_env" "json_adapter demo_env" "index_probes demo_env q r"
  "tie_rank demo_env r = 0"
  by (simp_all add: demo_env_def)

lemma demo_search:
  "similarity_search demo_env (demo_world\<lparr>embed_calls := n\<rparr>) (vec2 1 0) 5 =
     Inr (map (hit_of demo_env (vec2 1 0)) [row_c, row_a, row_b])"
  apply (simp add: similarity_search_def demo_driver demo_world_def empty_world_def row_a_def
      row_b_def row_c_def length_vec2)
  apply (simp add: demo_env_def distance_row_a distance_row_b distance_row_c)
  done

lemma demo_similarity:
  "similarity (hit_of demo_env (vec2 1 0) row_a) = 20 / 29"
  "similarity (hit_of demo_env (vec2 1 0) row_b) = 0"
  "similarity (hit_of demo_env (vec2 1 0) row_c) = 1"
  by (simp_all add: hit_of_def demo_env_def row_a_def row_b_def row_c_def
      distance_row_a distance_row_b distance_row_c)

section \<open>Similarity search\<close>

lemma sorted_similarity:
  fixes f :: "'a \<Rightarrow> real"
  assumes "sorted (map f xs)"
  shows "sorted_wrt (\<ge>) (map (\<lambda>x. 1 - f x) xs)"
proof -
  from assms have "sorted_wrt (\<lambda>a b. f a \<le> f b) xs" by (simp add: sorted_map)
  then have "sorted_wrt (\<lambda>a b. 1 - f a \<ge> 1 - f b) xs"
    by (rule sorted_wrt_mono_rel [rotated]) simp
  then show ?thesis by (simp add: sorted_wrt_map)
qed

text \<open>
  With a driver that sends the query embedding as a \<open>vector\<close>, what the search returns
  is as the statement is written: at most \<open>top_k\<close> rows, each a stored chunk with
  similarity one minus its distance to the query, the similarities never increasing.
\<close>

lemma similarity_search_with_adapter:
  assumes "similarity_search e w q k = Inr hits"
  shows "int (length hits) \<le> k
    \<and> (\<forall>h \<in> set hits. \<exists>r \<in> set (rows w). hit_id h = chunk_id r \<and> hit_content h = content r
          \<and> similarity h = 1 - cosine_distance e (embedding r) q)
    \<and> sorted_wrt (\<ge>) (map similarity hits)"
proof -
  let ?d = "\<lambda>r. cosine_distance e (embedding r) q"
  let ?sorted = "sort_key ?d (filter (index_probes e q) (rows w))"
  from assms have k: "0 \<le> k" and hits: "hits = take (nat k) (map (hit_of e q) ?sorted)"
    by (auto simp: similarity_search_def split: if_splits)
  from hits k have "int (length hits) \<le> k" by simp
  moreover have "\<forall>h \<in> set hits. \<exists>r \<in> set (rows w). hit_id h = chunk_id r \<and> hit_content h = content r
          \<and> similarity h = 1 - ?d r"
  proof
    fix h assume "h \<in> set hits"
    with hits have "h \<in> set (map (hit_of e q) ?sorted)" by (auto dest: in_set_takeD)
    then obtain r where "r \<in> set (rows w)" and "h = hit_of e q r" by auto
    then show "\<exists>r \<in> set (rows w). hit_id h = chunk_id r \<and> hit_content h = content r
          \<and> similarity h = 1 - ?d r"
      by (auto simp: hit_of_def)
  qed
  moreover have "sorted_wrt (\<ge>) (map similarity hits)"
  proof -
    have "sorted (map ?d ?sorted)" by simp
    then have "sorted_wrt (\<ge>) (map (\<lambda>r. 1 - ?d r) ?sorted)" by (rule sorted_similarity)
    moreover have "map similarity (map (hit_of e q) ?sorted) = map (\<lambda>r. 1 - ?d r) ?sorted"
      by (simp add: hit_of_def)
    ultimately have "sorted_wrt (\<ge>) (map similarity (map (hit_of e q) ?sorted))"
      by (simp only:)
    then have "sorted_wrt (\<ge>) (take (nat k) (map similarity (map (hit_of e q) ?sorted)))"
      by (rule sorted_wrt_take)
    with hits show ?thesis by (simp add: take_map)
  qed
  ultimately show ?thesis by blast
qed

text \<open>
  C5: as the repository ships, \<open>similarity_search\<close> returns for no query embedding and
  no \<open>top_k\<close>: the driver sends the query embedding as an array of floats, the store
  has no operator \<open>\<open><=>\<close>\<close> between a \<open>vector\<close> and such an array, and the statement
  is refused on every call.
\<close>

theorem similarity_search_raises:
  "similarity_search (as_shipped e) w q k =
     (if available w then Inl ProgrammingError else Inl OperationalError)"
  by (simp add: similarity_search_def as_shipped_def)

theorem similarity_search_raises_witness:
  "available demo_world
   \<and> similarity_search shipped_env demo_world (vec2 1 0) 5 = Inl ProgrammingError"
  using similarity_search_raises [of demo_env demo_world "vec2 1 0" 5]
  by (simp add: shipped_env_def demo_world_def empty_world_def)

section \<open>Retrieval\<close>

text \<open>
  C1: every chunk that \<open>retrieve\<close> returns has a similarity above \<open>0.1\<close>, for every
  query and every \<open>top_k\<close>.
\<close>

theorem retrieve_above_threshold:
  assumes "retrieve e w q k = (Inr hits, w')"
  shows "\<forall>h \<in> set hits. similarity h > 1 / 10"
  using assms by (auto simp: retrieve_def split: prod.splits sum.splits)

lemma demo_retrieve:
  "retrieve demo_env demo_world q 5 =
     (Inr (map (hit_of demo_env (vec2 1 0)) [row_c, row_a]), demo_world\<lparr>embed_calls := Suc (embed_calls demo_world)\<rparr>)"
  by (simp add: retrieve_def demo_embed_text demo_search demo_similarity)

theorem retrieve_above_threshold_witness:
  "retrieve demo_env demo_world (py ''what is a vector?'') 5 =
     (Inr (map (hit_of demo_env (vec2 1 0)) [row_c, row_a]), demo_world\<lparr>embed_calls := Suc (embed_calls demo_world)\<rparr>)
   \<and> similarity (hit_of demo_env (vec2 1 0) row_c) > 1 / 10
   \<and> similarity (hit_of demo_env (vec2 1 0) row_a) > 1 / 10
   \<and> \<not> similarity (hit_of demo_env (vec2 1 0) row_b) > 1 / 10"
  using retrieve_above_threshold [OF demo_retrieve [of "py ''what is a vector?''"]] demo_retrieve
  by (simp add: demo_similarity)

section \<open>Query\<close>

lemma retry_embed_calls:
  "retry n (\<lambda>w. (g (embed_calls w), w\<lparr>embed_calls := Suc (embed_calls w)\<rparr>)) w = (r, w')
     \<Longrightarrow> \<exists>m. w' = w\<lparr>embed_calls := m\<rparr>"
proof (induction n arbitrary: w)
  case 0
  then have "w' = w\<lparr>embed_calls := embed_calls w\<rparr>" by simp
  then show ?case by blast
next
  case (Suc n)
  show ?case
  proof (cases "g (embed_calls w)")
    case (Some a)
    with Suc.prems show ?thesis by auto
  next
    case None
    with Suc.prems
    have "retry n (\<lambda>w. (g (embed_calls w), w\<lparr>embed_calls := Suc (embed_calls w)\<rparr>))
            (w\<lparr>embed_calls := Suc (embed_calls w)\<rparr>) = (r, w')"
      by simp
    from Suc.IH [OF this] show ?thesis by auto
  qed
qed

lemma embed_text_world:
  assumes "embed_text e w t = (r, w')"
  shows "\<exists>m. w' = w\<lparr>embed_calls := m\<rparr>"
  using assms unfolding embed_text_def by (rule retry_embed_calls)

lemma retrieve_world:
  assumes "retrieve e w q k = (r, w')"
  shows "\<exists>m. w' = w\<lparr>embed_calls := m\<rparr>"
proof -
  obtain r0 w0 where e: "embed_text e w q = (r0, w0)" by (cases "embed_text e w q")
  from embed_text_world [OF e] obtain m where "w0 = w\<lparr>embed_calls := m\<rparr>" ..
  moreover from assms e have "w' = w0"
    by (auto simp: retrieve_def split: sum.splits)
  ultimately show ?thesis by blast
qed

text \<open>
  C2: when retrieval gives no chunk, \<open>query\<close> returns the fixed answer, no sources and
  the query it was given, and neither \<open>Generator.generate\<close> nor the language model is
  called.
\<close>

theorem query_empty_retrieval:
  assumes "retrieve e w q (case top_k of None \<Rightarrow> top_k_results (cfg e) | Some k \<Rightarrow> k) = (Inr [], w')"
  shows "query e w q top_k =
           (Inr \<lparr>answer = py ''I couldn't find any relevant information to answer your question.'',
                 sources = [], query_text = q\<rparr>, w')
         \<and> generate_calls w' = generate_calls w \<and> llm_calls w' = llm_calls w"
proof -
  from retrieve_world [OF assms] obtain m where "w' = w\<lparr>embed_calls := m\<rparr>" ..
  then have "generate_calls w' = generate_calls w \<and> llm_calls w' = llm_calls w" by simp
  moreover from assms have "query e w q top_k =
           (Inr \<lparr>answer = fallback_answer, sources = [], query_text = q\<rparr>, w')"
    by (simp add: query_def)
  ultimately show ?thesis by (simp add: fallback_answer_def)
qed

lemma empty_retrieve:
  "retrieve demo_env empty_world q 5 = (Inr [], empty_world\<lparr>embed_calls := 1\<rparr>)"
  by (simp add: retrieve_def demo_embed_text similarity_search_def demo_driver empty_world_def)

lemma demo_top_k: "top_k_results (cfg demo_env) = 5"
  by (simp add: demo_env_def default_settings_def)

theorem query_empty_retrieval_witness:
  "retrieve demo_env empty_world (py ''unrelated question'') 5 = (Inr [], empty_world\<lparr>embed_calls := 1\<rparr>)
   \<and> query demo_env empty_world (py ''unrelated question'') None =
       (Inr \<lparr>answer = py ''I couldn't find any relevant information to answer your question.'',
             sources = [], query_text = py ''unrelated question''\<rparr>, empty_world\<lparr>embed_calls := 1\<rparr>)
   \<and> generate_calls (empty_world\<lparr>embed_calls := 1\<rparr>) = generate_calls empty_world
   \<and> llm_calls (empty_world\<lparr>embed_calls := 1\<rparr>) = llm_calls empty_world"
proof -
  have r: "retrieve demo_env empty_world (py ''unrelated question'')
             (case None of None \<Rightarrow> top_k_results (cfg demo_env) | Some k \<Rightarrow> k) =
           (Inr [], empty_world\<lparr>embed_calls := 1\<rparr>)"
    by (simp add: demo_top_k empty_retrieve)
  from query_empty_retrieval [OF r] empty_retrieve [of "py ''unrelated question''"]
  show ?thesis by simp
qed

section \<open>Sources\<close>

lemma slice_prefix: "0 \<le> j \<Longrightarrow> slice xs 0 j = take (nat j) xs"
  by (simp add: slice_def clamp_index_def Let_def min_def)

lemma round_half_even_near: "\<bar>of_int (round_half_even y) - y\<bar> \<le> 1 / 2"
proof -
  have "of_int \<lfloor>y\<rfloor> \<le> y" and "y < of_int \<lfloor>y\<rfloor> + 1" by linarith+
  then show ?thesis
    by (auto simp: round_half_even_def Let_def)
qed

lemma py_round_3:
  "(\<exists>n::int. py_round x 3 = of_int n / 1000) \<and> \<bar>py_round x 3 - x\<bar> \<le> 1 / 2000"
proof
  show "\<exists>n::int. py_round x 3 = of_int n / 1000"
    by (auto simp: py_round_def)
  have "\<bar>of_int (round_half_even (x * 1000)) - x * 1000\<bar> \<le> 1 / 2"
    by (rule round_half_even_near)
  then show "\<bar>py_round x 3 - x\<bar> \<le> 1 / 2000"
    by (simp add: py_round_def field_simps abs_le_iff)
qed

lemma format_source_content:
  "src_content (format_source h) =
     (if length (hit_content h) \<le> 200 then hit_content h
      else take 200 (hit_content h) @ py ''...'')"
  by (simp add: format_source_def slice_prefix)

text \<open>
  C9, as the code has it: when retrieval gives chunks and \<open>query\<close> returns, there is
  one source per chunk, in order. Its content is the chunk's content when that has at
  most 200 characters, and otherwise the first 200 characters followed by three
  periods; its similarity is the chunk's similarity rounded to three decimals, that is
  a multiple of \<open>1 / 1000\<close> at most \<open>1 / 2000\<close> away.
\<close>

theorem query_sources:
  assumes ret: "retrieve e w q (case top_k of None \<Rightarrow> top_k_results (cfg e) | Some k \<Rightarrow> k) = (Inr chunks, w1)"
    and ne: "chunks \<noteq> []"
    and res: "query e w q top_k = (Inr r, w')"
  shows "length (sources r) = length chunks
    \<and> (\<forall>i < length chunks.
          src_content (sources r ! i) =
            (if length (hit_content (chunks ! i)) \<le> 200 then hit_content (chunks ! i)
             else take 200 (hit_content (chunks ! i)) @ py ''...'')
        \<and> src_similarity (sources r ! i) = py_round (similarity (chunks ! i)) 3
        \<and> (\<exists>n::int. src_similarity (sources r ! i) = of_int n / 1000)
        \<and> \<bar>src_similarity (sources r ! i) - similarity (chunks ! i)\<bar> \<le> 1 / 2000)"
proof -
  from ret ne res have src: "sources r = map format_source chunks"
    by (auto simp: query_def split: prod.splits sum.splits)
  have sim: "src_similarity (format_source h) = py_round (similarity h) 3" for h
    by (simp add: format_source_def)
  show ?thesis
    using py_round_3 by (simp add: src format_source_content sim)
qed

lemma demo_generate:
  "chunks \<noteq> [] \<Longrightarrow> generate demo_env w q chunks =
     (Inr (py ''An answer.''), w\<lparr>generate_calls := Suc (generate_calls w), llm_calls := Suc (llm_calls w)\<rparr>)"
  by (simp add: generate_def generate_once_def demo_env_def eval_nat_numeral strip_def py_def
      is_space_def)

lemma round_demo: "py_round (20 / 29) 3 = 69 / 100" "py_round 1 3 = 1"
  by (simp_all add: py_round_def round_half_even_def Let_def)

lemma demo_sources:
  "format_source (hit_of demo_env (vec2 1 0) row_c) =
     \<lparr>src_content = replicate 60 99, src_metadata = Map.empty, src_similarity = 1\<rparr>"
  "format_source (hit_of demo_env (vec2 1 0) row_a) =
     \<lparr>src_content = replicate 200 97 @ py ''...'', src_metadata = Map.empty, src_similarity = 69 / 100\<rparr>"
  by (simp_all add: format_source_def demo_similarity round_demo slice_prefix)
     (simp_all add: hit_of_def row_a_def row_c_def)

lemma demo_query:
  "query demo_env demo_world q None =
     (Inr \<lparr>answer = py ''An answer.'',
           sources = [\<lparr>src_content = replicate 60 99, src_metadata = Map.empty, src_similarity = 1\<rparr>,
                      \<lparr>src_content = replicate 200 97 @ py ''...'', src_metadata = Map.empty,
                       src_similarity = 69 / 100\<rparr>],
           query_text = q\<rparr>,
      demo_world\<lparr>embed_calls := Suc (embed_calls demo_world),
                 generate_calls := Suc (generate_calls demo_world),
                 llm_calls := Suc (llm_calls demo_world)\<rparr>)"
  by (simp add: query_def demo_top_k demo_retrieve demo_generate demo_sources)

text \<open>
  C9 as stated fails: the chunk of 201 characters comes back as a source of 203
  characters, which is not its content truncated to 200.
\<close>

theorem query_source_truncation_counterexample:
  "fst (retrieve demo_env demo_world (py ''what is a vector?'') 5) =
     Inr [hit_of demo_env (vec2 1 0) row_c, hit_of demo_env (vec2 1 0) row_a]
   \<and> hit_content (hit_of demo_env (vec2 1 0) row_a) = replicate 201 97
   \<and> fst (query demo_env demo_world (py ''what is a vector?'') None) =
       Inr \<lparr>answer = py ''An answer.'',
            sources = [\<lparr>src_content = replicate 60 99, src_metadata = Map.empty, src_similarity = 1\<rparr>,
                       \<lparr>src_content = replicate 200 97 @ py ''...'', src_metadata = Map.empty,
                        src_similarity = 69 / 100\<rparr>],
            query_text = py ''what is a vector?''\<rparr>
   \<and> replicate 200 97 @ py ''...'' \<noteq> take 200 (replicate 201 (97::nat))
   \<and> length (replicate 200 (97::nat) @ py ''...'') = 203"
  by (simp add: demo_retrieve demo_query) (simp add: hit_of_def row_a_def py_def)

theorem query_sources_witness:
  "retrieve demo_env demo_world (py ''what is a vector?'') 5 =
     (Inr [hit_of demo_env (vec2 1 0) row_c, hit_of demo_env (vec2 1 0) row_a],
      demo_world\<lparr>embed_calls := Suc (embed_calls demo_world)\<rparr>)
   \<and> [hit_of demo_env (vec2 1 0) row_c, hit_of demo_env (vec2 1 0) row_a] \<noteq> []
   \<and> src_content (sources (projr (fst (query demo_env demo_world (py ''what is a vector?'') None))) ! 1)
       = take 200 (replicate 201 97) @ py ''...''
   \<and> src_similarity (sources (projr (fst (query demo_env demo_world (py ''what is a vector?'') None))) ! 1)
       = 69 / 100
   \<and> src_content (sources (projr (fst (query demo_env demo_world (py ''what is a vector?'') None))) ! 0)
       = replicate 60 99"
proof -
  let ?q = "py ''what is a vector?''"
  let ?chunks = "[hit_of demo_env (vec2 1 0) row_c, hit_of demo_env (vec2 1 0) row_a]"
  let ?res = "query demo_env demo_world ?q None"
  have r: "retrieve demo_env demo_world ?q
             (case None of None \<Rightarrow> top_k_results (cfg demo_env) | Some k \<Rightarrow> k) =
           (Inr ?chunks, demo_world\<lparr>embed_calls := Suc (embed_calls demo_world)\<rparr>)"
    by (simp add: demo_top_k demo_retrieve)
  have ne: "?chunks \<noteq> []" by simp
  have q: "?res = (Inr (projr (fst ?res)), snd ?res)"
    by (simp add: demo_query)
  have len: "hit_content (hit_of demo_env (vec2 1 0) row_a) = replicate 201 97"
    "hit_content (hit_of demo_env (vec2 1 0) row_c) = replicate 60 99"
    by (simp_all add: hit_of_def row_a_def row_c_def)
  from query_sources [OF r ne q, THEN conjunct2, rule_format, of 1]
  have one: "src_content (sources (projr (fst ?res)) ! 1) = take 200 (replicate 201 97) @ py ''...''"
    "src_similarity (sources (projr (fst ?res)) ! 1) = 69 / 100"
    by (simp_all add: len demo_similarity round_demo)
  from query_sources [OF r ne q, THEN conjunct2, rule_format, of 0]
  have zero: "src_content (sources (projr (fst ?res)) ! 0) = replicate 60 99"
    by (simp add: len)
  from one zero show ?thesis
    by (simp add: demo_retrieve)
qed

section \<open>Deleting a document\<close>

text \<open>
  C4, as the code has it: \<open>delete_document\<close> never raises; it returns \<open>True\<close> exactly
  when the store could be reached, and then every chunk of the document is gone and
  every other chunk is kept; when the store fails it returns \<open>False\<close> and nothing
  changes.
\<close>

theorem delete_document_result:
  "delete_document w d =
     (available w,
      if available w then commit (w\<lparr>rows := filter (\<lambda>r. document_id r \<noteq> d) (rows w)\<rparr>) else w)"
  by (simp add: delete_document_def delete_by_document_id_def)

theorem delete_document_result_witness:
  "delete_document demo_world (py ''d-1'') = (True, commit (demo_world\<lparr>rows := [row_c]\<rparr>))
   \<and> delete_document (demo_world\<lparr>available := False\<rparr>) (py ''d-1'')
       = (False, demo_world\<lparr>available := False\<rparr>)"
  using delete_document_result [of demo_world "py ''d-1''"]
    delete_document_result [of "demo_world\<lparr>available := False\<rparr>" "py ''d-1''"]
  by (simp add: demo_world_def empty_world_def row_a_def row_b_def row_c_def py_def)

text \<open>
  C4 as stated fails: for a document that has no chunk, nothing is deleted and the
  result is \<open>True\<close>.
\<close>

theorem delete_document_true_counterexample:
  "fst (delete_document empty_world (py ''no-such-document'')) = True
   \<and> fst (delete_by_document_id empty_world (py ''no-such-document'')) = Inr 0
   \<and> rows (snd (delete_document empty_world (py ''no-such-document''))) = rows empty_world"
  by (simp add: delete_document_def delete_by_document_id_def empty_world_def commit_def)

section \<open>Batch insertion\<close>

lemma insert_row_Inr:
  assumes "insert_row tbl r = Inr tbl'"
  shows "tbl' = tbl @ [r]" and "chunk_id r \<notin> chunk_id ` set tbl" and "length (embedding r) = 1536"
  using assms by (auto simp: insert_row_def split: if_splits)

lemma execute_insert_Inr:
  assumes "execute_insert e tbl r = Inr tbl'"
  shows "insert_row tbl r = Inr tbl'" and "json_adapter e"
  using assms by (auto simp: execute_insert_def split: if_splits)

text \<open>
  With a driver that can send the metadata, what the loop returns is as the method is
  written: one fresh id for each chunk record, and the records inserted in order.
\<close>

lemma batch_loop_result:
  assumes "batch_loop e doc cds w acc = (Inr ids, w')"
  shows "\<exists>new. ids = acc @ new
     \<and> new = map (\<lambda>i. uuid4 e (uuid_draws w + i)) [0 ..< length cds]
     \<and> rows w' = rows w @ map (\<lambda>(cid, cd). new_row cid doc cd (clock w)) (zip new cds)
     \<and> distinct new \<and> set new \<inter> chunk_id ` set (rows w) = {}
     \<and> clock w' = clock w \<and> available w' = available w"
  using assms
proof (induction cds arbitrary: w acc)
  case Nil
  then show ?case by simp
next
  case (Cons cd cds)
  let ?cid = "uuid4 e (uuid_draws w)"
  let ?w1 = "w\<lparr>uuid_draws := Suc (uuid_draws w)\<rparr>"
  let ?r = "new_row ?cid doc cd (clock w)"
  from Cons.prems obtain tbl where ex: "execute_insert e (rows w) ?r = Inr tbl"
    and rest: "batch_loop e doc cds (?w1\<lparr>rows := tbl\<rparr>) (acc @ [?cid]) = (Inr ids, w')"
    by (auto simp: Let_def split: sum.splits)
  note ins = execute_insert_Inr(1) [OF ex]
  from insert_row_Inr [OF ins] have tbl: "tbl = rows w @ [?r]"
    and fresh: "?cid \<notin> chunk_id ` set (rows w)"
    by (simp_all add: new_row_def)
  from Cons.IH [OF rest] obtain new where
    ids: "ids = (acc @ [?cid]) @ new"
    and new: "new = map (\<lambda>i. uuid4 e (Suc (uuid_draws w) + i)) [0 ..< length cds]"
    and rws: "rows w' = tbl @ map (\<lambda>(cid, cd). new_row cid doc cd (clock w)) (zip new cds)"
    and dist: "distinct new" and disj: "set new \<inter> chunk_id ` set tbl = {}"
    and same: "clock w' = clock w" "available w' = available w"
    by auto
  have cid_tbl: "?cid \<in> chunk_id ` set tbl" by (simp add: tbl new_row_def)
  with disj have notin: "?cid \<notin> set new" by blast
  have upt: "map (\<lambda>i. uuid4 e (uuid_draws w + i)) [0 ..< length (cd # cds)] = ?cid # new"
    by (simp add: new map_upt_Suc del: upt_Suc)
  have "ids = acc @ (?cid # new)" by (simp add: ids)
  moreover have "rows w' = rows w @ map (\<lambda>(cid, cd). new_row cid doc cd (clock w)) (zip (?cid # new) (cd # cds))"
    by (simp add: rws tbl)
  moreover have "distinct (?cid # new)" using dist notin by simp
  moreover have "set (?cid # new) \<inter> chunk_id ` set (rows w) = {}"
    using disj fresh by (auto simp: tbl)
  ultimately show ?case using upt same by (intro exI [of _ "?cid # new"]) simp
qed

lemma batch_add_chunks_rows:
  assumes "batch_add_chunks e w doc chunks_data = (Inr chunk_ids, w')"
  shows "chunk_ids = map (\<lambda>i. uuid4 e (uuid_draws w + i)) [0 ..< length chunks_data]"
    and "length chunk_ids = length chunks_data"
    and "rows w' = rows w @ map (\<lambda>(cid, cd). new_row cid doc cd (clock w)) (zip chunk_ids chunks_data)"
    and "distinct chunk_ids"
    and "set chunk_ids \<inter> chunk_id ` set (rows w) = {}"
    and "available w'"
proof -
  from assms obtain w0 where loop: "batch_loop e doc chunks_data w [] = (Inr chunk_ids, w0)"
    and w': "w' = commit w0" and av: "available w"
    by (auto simp: batch_add_chunks_def split: if_splits prod.splits sum.splits)
  from batch_loop_result [OF loop] obtain new where n: "chunk_ids = [] @ new"
    and ids0: "new = map (\<lambda>i. uuid4 e (uuid_draws w + i)) [0 ..< length chunks_data]"
    and rws0: "rows w0 = rows w @ map (\<lambda>(cid, cd). new_row cid doc cd (clock w)) (zip new chunks_data)"
    and dist0: "distinct new" and disj0: "set new \<inter> chunk_id ` set (rows w) = {}"
    and av0: "available w0 = available w"
    by blast
  from n have eq: "new = chunk_ids" by simp
  show "chunk_ids = map (\<lambda>i. uuid4 e (uuid_draws w + i)) [0 ..< length chunks_data]"
    using ids0 eq by simp
  then show "length chunk_ids = length chunks_data" by simp
  show "rows w' = rows w @ map (\<lambda>(cid, cd). new_row cid doc cd (clock w)) (zip chunk_ids chunks_data)"
    using rws0 eq by (simp add: w' commit_def)
  show "distinct chunk_ids" using dist0 eq by simp
  show "set chunk_ids \<inter> chunk_id ` set (rows w) = {}" using disj0 eq by simp
  show "available w'" using av av0 by (simp add: w' commit_def)
qed

text \<open>
  C10: as the repository ships, \<open>batch_add_chunks\<close> returns ids for no list that has a
  chunk record: the first \<open>INSERT\<close> passes the metadata as a \<open>dict\<close>, which the driver
  cannot send, and the method raises with one \<open>uuid4\<close> value drawn and nothing
  inserted. Only for the empty list does it return, with no id.
\<close>

theorem batch_add_chunks_raises:
  "batch_add_chunks (as_shipped e) w doc (cd # cds) =
     (if available w then (Inl ProgrammingError, w\<lparr>uuid_draws := Suc (uuid_draws w)\<rparr>)
      else (Inl OperationalError, w))
   \<and> batch_add_chunks (as_shipped e) w doc [] =
     (if available w then (Inr [], commit w) else (Inl OperationalError, w))"
  by (simp add: batch_add_chunks_def execute_insert_def as_shipped_def Let_def)

theorem batch_add_chunks_raises_witness:
  "available empty_world
   \<and> batch_add_chunks shipped_env empty_world (py ''d-9'') demo_chunks_data =
       (Inl ProgrammingError, empty_world\<lparr>uuid_draws := 1\<rparr>)
   \<and> rows (empty_world\<lparr>uuid_draws := 1\<rparr>) = []"
  using batch_add_chunks_raises [of demo_env empty_world "py ''d-9''" "hd demo_chunks_data"
      "tl demo_chunks_data"]
  by (simp add: shipped_env_def demo_chunks_data_def empty_world_def)

section \<open>Ingesting a document and reading it back\<close>

lemma embed_chunks_world:
  assumes "embed_chunks e w doc md chunks acc = (r, w')"
  shows "\<exists>m. w' = w\<lparr>embed_calls := m\<rparr>"
  using assms
proof (induction chunks arbitrary: w acc)
  case Nil
  then have "w' = w\<lparr>embed_calls := embed_calls w\<rparr>" by simp
  then show ?case ..
next
  case (Cons c chunks)
  obtain r1 w1 where emb: "embed_text e w c = (r1, w1)" by (cases "embed_text e w c")
  from embed_text_world [OF emb] obtain m1 where w1: "w1 = w\<lparr>embed_calls := m1\<rparr>" ..
  show ?case
  proof (cases r1)
    case (Inl err)
    with Cons.prems emb have "w' = w1" by simp
    with w1 show ?thesis by blast
  next
    case (Inr v)
    with Cons.prems emb obtain acc' where "embed_chunks e w1 doc md chunks acc' = (r, w')"
      by simp
    from Cons.IH [OF this] obtain m where "w' = w1\<lparr>embed_calls := m\<rparr>" ..
    with w1 have "w' = w\<lparr>embed_calls := m\<rparr>" by simp
    then show ?thesis ..
  qed
qed

lemma embed_chunks_result:
  assumes "embed_chunks e w doc md chunks acc = (Inr cds, w')"
  shows "map cd_content cds = map cd_content acc @ chunks
    \<and> map cd_metadata cds = map cd_metadata acc @
          map (\<lambda>i. Some (md(py ''document_id'' \<mapsto> JStr doc,
                               py ''chunk_index'' \<mapsto> JInt (int (length acc + i)))))
            [0 ..< length chunks]"
  using assms
proof (induction chunks arbitrary: w acc)
  case Nil
  then show ?case by simp
next
  case (Cons c chunks)
  let ?cd = "\<lambda>emb. \<lparr>cd_content = c, cd_embedding = emb,
                cd_metadata = Some (md(py ''document_id'' \<mapsto> JStr doc,
                                       py ''chunk_index'' \<mapsto> JInt (int (length acc))))\<rparr>"
  from Cons.prems obtain emb w1 where emb: "embed_text e w c = (Inr emb, w1)"
    and rest: "embed_chunks e w1 doc md chunks (acc @ [?cd emb]) = (Inr cds, w')"
    by (auto split: prod.splits sum.splits)
  from Cons.IH [OF rest] have
    c: "map cd_content cds = map cd_content (acc @ [?cd emb]) @ chunks"
    and md: "map cd_metadata cds = map cd_metadata (acc @ [?cd emb]) @
          map (\<lambda>i. Some (md(py ''document_id'' \<mapsto> JStr doc,
                               py ''chunk_index'' \<mapsto> JInt (int (length (acc @ [?cd emb]) + i)))))
            [0 ..< length chunks]"
    by blast+
  have "map cd_content cds = map cd_content acc @ c # chunks" using c by simp
  moreover have "map cd_metadata cds = map cd_metadata acc @
          map (\<lambda>i. Some (md(py ''document_id'' \<mapsto> JStr doc,
                               py ''chunk_index'' \<mapsto> JInt (int (length acc + i)))))
            [0 ..< length (c # chunks)]"
    using md by (simp add: map_upt_Suc ac_simps del: upt_Suc)
  ultimately show ?case by blast
qed

lemma embed_chunks_length:
  assumes "embed_chunks e w doc md chunks [] = (Inr cds, w')"
  shows "length cds = length chunks"
proof -
  from embed_chunks_result [OF assms] have "map cd_content cds = chunks" by simp
  then show ?thesis by (metis length_map)
qed

lemma as_shipped_fields:
  "cfg (as_shipped e) = cfg e" "uuid4 (as_shipped e) = uuid4 e"
  "sample_documents (as_shipped e) = sample_documents e"
  "embed_model (as_shipped e) = embed_model e"
  "\<not> json_adapter (as_shipped e)" "\<not> vector_adapter (as_shipped e)"
  by (simp_all add: as_shipped_def)

text \<open>
  C8: as the repository ships, \<open>ingest_document\<close> returns a document id for no content
  that gives a chunk: when the embeddings succeed, \<open>batch_add_chunks\<close> raises on the
  first chunk. The call raises and the table is as it was, so nothing of the document
  can be read back.
\<close>

theorem ingest_document_raises:
  assumes "chunk_text (cfg e) t = Some chunks" and "chunks \<noteq> []"
  shows "\<exists>err w'. ingest_document (as_shipped e) w t md = Some (Inl err, w') \<and> rows w' = rows w"
proof -
  let ?e = "as_shipped e"
  let ?doc = "uuid4 e (uuid_draws w)"
  let ?w1 = "w\<lparr>uuid_draws := Suc (uuid_draws w)\<rparr>"
  let ?md = "case md of None \<Rightarrow> Map.empty | Some m \<Rightarrow> m"
  obtain r2 w2 where ec: "embed_chunks ?e ?w1 ?doc ?md chunks [] = (r2, w2)"
    by (cases "embed_chunks ?e ?w1 ?doc ?md chunks []")
  from embed_chunks_world [OF ec] obtain m where w2: "w2 = ?w1\<lparr>embed_calls := m\<rparr>" ..
  show ?thesis
  proof (cases r2)
    case (Inl err)
    with assms(1) ec have "ingest_document ?e w t md = Some (Inl err, w2)"
      by (simp add: ingest_document_def as_shipped_fields Let_def)
    moreover have "rows w2 = rows w" using w2 by simp
    ultimately show ?thesis by blast
  next
    case (Inr cds)
    from embed_chunks_length [OF ec [unfolded Inr]] assms(2) obtain cd cds' where
      cds: "cds = cd # cds'"
      by (cases cds) auto
    let ?res = "batch_add_chunks ?e w2 ?doc cds"
    have ba: "?res = (if available w2 then (Inl ProgrammingError, w2\<lparr>uuid_draws := Suc (uuid_draws w2)\<rparr>)
                      else (Inl OperationalError, w2))"
      unfolding cds
      by (simp add: batch_add_chunks_def execute_insert_def as_shipped_def Let_def)
    show ?thesis
    proof (cases "available w2")
      case True
      with assms(1) ec Inr ba
      have "ingest_document ?e w t md =
              Some (Inl ProgrammingError, w2\<lparr>uuid_draws := Suc (uuid_draws w2)\<rparr>)"
        by (simp add: ingest_document_def as_shipped_fields Let_def)
      moreover have "rows (w2\<lparr>uuid_draws := Suc (uuid_draws w2)\<rparr>) = rows w" using w2 by simp
      ultimately show ?thesis by blast
    next
      case False
      with assms(1) ec Inr ba
      have "ingest_document ?e w t md = Some (Inl OperationalError, w2)"
        by (simp add: ingest_document_def as_shipped_fields Let_def)
      moreover have "rows w2 = rows w" using w2 by simp
      ultimately show ?thesis by blast
    qed
  qed
qed

lemma demo_cfg: "cfg demo_env = default_settings" "cfg shipped_env = default_settings"
  "cfg short_env = default_settings"
  by (simp_all add: demo_env_def shipped_env_def short_env_def as_shipped_def)

lemma shipped_embed_text:
  "embed_text shipped_env w t = (Inr (vec2 1 0), w\<lparr>embed_calls := Suc (embed_calls w)\<rparr>)"
  by (simp add: embed_text_def shipped_env_def as_shipped_def demo_env_def eval_nat_numeral)

lemma shipped_ingest:
  assumes "available w"
  shows "ingest_document shipped_env w padded_text md =
     Some (Inl ProgrammingError,
           w\<lparr>uuid_draws := Suc (Suc (uuid_draws w)), embed_calls := Suc (embed_calls w)\<rparr>)"
  using assms
  by (simp add: ingest_document_def demo_cfg padded_text_chunks Let_def shipped_embed_text
      batch_add_chunks_def execute_insert_def
      shipped_env_def [THEN arg_cong, of json_adapter] as_shipped_def)

theorem ingest_document_raises_witness:
  "chunk_text (cfg demo_env) padded_text = Some [replicate 60 97]
   \<and> [replicate 60 (97::nat)] \<noteq> []
   \<and> ingest_document shipped_env empty_world padded_text None =
       Some (Inl ProgrammingError, empty_world\<lparr>uuid_draws := 2, embed_calls := 1\<rparr>)
   \<and> rows (empty_world\<lparr>uuid_draws := 2, embed_calls := 1\<rparr>) = rows empty_world"
proof -
  have ct: "chunk_text (cfg demo_env) padded_text = Some [replicate 60 97]"
    by (simp add: demo_cfg padded_text_chunks)
  have ne: "[replicate 60 (97::nat)] \<noteq> []" by simp
  have ev: "ingest_document shipped_env empty_world padded_text None =
       Some (Inl ProgrammingError, empty_world\<lparr>uuid_draws := 2, embed_calls := 1\<rparr>)"
    using shipped_ingest [of empty_world None] by (simp add: empty_world_def)
  from ingest_document_raises [OF ct ne, of empty_world None] ct ev show ?thesis
    by (simp add: shipped_env_def)
qed

lemma new_rows:
  assumes "length ids = length cds"
  shows "map chunk_id (map (\<lambda>(cid, cd). new_row cid doc cd ts) (zip ids cds)) = ids"
    and "map content (map (\<lambda>(cid, cd). new_row cid doc cd ts) (zip ids cds)) = map cd_content cds"
    and "\<forall>r \<in> set (map (\<lambda>(cid, cd). new_row cid doc cd ts) (zip ids cds)).
           document_id r = doc \<and> created_at r = ts"
  using assms by (induction ids cds rule: list_induct2) (simp_all add: new_row_def)

lemma sorted_constant:
  fixes xs :: "nat list"
  assumes "\<forall>x \<in> set xs. x = c"
  shows "sorted xs"
  using assms by (induction xs) auto

lemma ingest_document_steps:
  assumes "ingest_document e w t md = Some (Inr doc, w')"
  obtains chunks cds ids w2 where
      "doc = uuid4 e (uuid_draws w)"
    and "chunk_text (cfg e) t = Some chunks"
    and "map cd_content cds = chunks"
    and "length ids = length cds" and "distinct ids"
    and "rows w' = rows w @ map (\<lambda>(cid, cd). new_row cid doc cd (clock (w2::world))) (zip ids cds)"
    and "available w'"
proof -
  let ?doc = "uuid4 e (uuid_draws w)"
  let ?w1 = "w\<lparr>uuid_draws := Suc (uuid_draws w)\<rparr>"
  let ?md = "case md of None \<Rightarrow> Map.empty | Some m \<Rightarrow> m"
  from assms obtain chunks where ct: "chunk_text (cfg e) t = Some chunks"
    by (auto simp: ingest_document_def Let_def split: option.splits)
  obtain r2 w2 where ec: "embed_chunks e ?w1 ?doc ?md chunks [] = (r2, w2)"
    by (cases "embed_chunks e ?w1 ?doc ?md chunks []")
  with assms ct obtain cds where r2: "r2 = Inr cds"
    by (cases r2) (auto simp: ingest_document_def Let_def)
  obtain r3 w3 where ba: "batch_add_chunks e w2 ?doc cds = (r3, w3)"
    by (cases "batch_add_chunks e w2 ?doc cds")
  with assms ct ec r2 obtain ids where r3: "r3 = Inr ids"
    by (cases r3) (auto simp: ingest_document_def Let_def)
  from assms ct ec r2 ba r3 have doc: "doc = ?doc"
    by (auto simp: ingest_document_def Let_def split: sum.splits if_splits prod.splits)
  from assms ct ec r2 ba r3 have "w' = w3 \<or> w' = commit w3"
    by (auto simp: ingest_document_def Let_def create_vector_index_def
        split: sum.splits if_splits prod.splits)
  then have w': "rows w' = rows w3" "available w' = available w3"
    by (auto simp: commit_def)
  from embed_chunks_result [OF ec [unfolded r2]] have c: "map cd_content cds = chunks"
    by simp
  from embed_chunks_world [OF ec] obtain m where w2: "w2 = ?w1\<lparr>embed_calls := m\<rparr>" ..
  note b = batch_add_chunks_rows [OF ba [unfolded r3]]
  have "rows w2 = rows w" using w2 by simp
  with b(3) w' have rws': "rows w' = rows w @ map (\<lambda>(cid, cd). new_row cid ?doc cd (clock w2)) (zip ids cds)"
    by simp
  show ?thesis
    by (rule that [of chunks cds ids w2]) (use doc ct c b(2) b(4) b(6) rws' w' in simp_all)
qed

text \<open>
  With a driver that can send the metadata, and a store that returns rows with equal
  sort keys in the order of the table, a document that was ingested is read back as
  the chunks of the chunker, in the chunker's order.
\<close>

lemma ingest_then_get_document_with_adapter:
  assumes ing: "ingest_document e w t md = Some (Inr doc, w')"
    and fresh: "uuid4 e (uuid_draws w) \<notin> document_id ` set (rows w)"
    and ties: "\<And>r. tie_rank e r = 0"
  shows "\<exists>chunks v. chunk_text (cfg e) t = Some chunks
    \<and> get_document e w' doc = Some v
    \<and> dv_document_id v = doc
    \<and> dv_chunk_count v = int (length chunks)
    \<and> map dc_content (dv_chunks v) = chunks"
proof (rule ingest_document_steps [OF ing])
  fix chunks cds ids and w2 :: world
  assume doc: "doc = uuid4 e (uuid_draws w)"
    and ct: "chunk_text (cfg e) t = Some chunks"
    and c: "map cd_content cds = chunks"
    and len: "length ids = length cds"
    and "distinct ids"
    and rws: "rows w' = rows w @ map (\<lambda>(cid, cd). new_row cid doc cd (clock w2)) (zip ids cds)"
    and av: "available w'"
  let ?new = "map (\<lambda>(cid, cd). new_row cid doc cd (clock w2)) (zip ids cds)"
  note nr = new_rows [OF len, of doc "clock w2"]
  from fresh doc have old: "filter (\<lambda>r. document_id r = doc) (rows w) = []"
    by (force simp: filter_empty_conv)
  from nr(3) have "filter (\<lambda>r. document_id r = doc) ?new = ?new"
    by (intro filter_True) blast
  with old have filt: "filter (\<lambda>r. document_id r = doc) (rows w') = ?new"
    by (simp add: rws)
  have "sorted (map (tie_rank e) ?new)"
    by (rule sorted_constant [of _ 0]) (simp add: ties)
  then have srt1: "sort_key (tie_rank e) ?new = ?new" by (rule sort_key_id_if_sorted)
  have "sorted (map created_at ?new)"
    by (rule sorted_constant [of _ "clock w2"]) (use nr(3) in auto)
  then have srt2: "sort_key created_at ?new = ?new" by (rule sort_key_id_if_sorted)
  let ?v = "\<lparr>dv_document_id = doc, dv_chunks = map doc_chunk_of ?new,
             dv_chunk_count = int (length (map doc_chunk_of ?new))\<rparr>"
  have gd: "get_document e w' doc = Some ?v"
    by (simp add: get_document_def get_document_chunks_def av filt srt1 srt2)
  have cont: "map dc_content (map doc_chunk_of ?new) = chunks"
  proof -
    have "map dc_content (map doc_chunk_of ?new) = map content ?new"
      by (simp add: doc_chunk_of_def)
    with nr(2) c show ?thesis by simp
  qed
  have "length (map dc_content (map doc_chunk_of ?new)) = length chunks"
    by (simp only: cont)
  then have cnt: "int (length (map doc_chunk_of ?new)) = int (length chunks)"
    by (simp only: length_map)
  show "\<exists>chunks v. chunk_text (cfg e) t = Some chunks
    \<and> get_document e w' doc = Some v
    \<and> dv_document_id v = doc
    \<and> dv_chunk_count v = int (length chunks)
    \<and> map dc_content (dv_chunks v) = chunks"
    by (rule exI [of _ chunks], rule exI [of _ ?v]) (use ct gd cont cnt in simp)
qed

text \<open>
  Without that assumption on the store the order is not fixed: the two chunks of the
  document \<open>d-1\<close> carry one time stamp, and both results below are sorted by
  \<open>created_at\<close>.
\<close>

lemma get_document_chunks_tie_order:
  "map dc_id (projr (get_document_chunks demo_env demo_world (py ''d-1''))) = [py ''c-a'', py ''c-b'']"
  "map dc_id (projr (get_document_chunks late_a_env demo_world (py ''d-1''))) = [py ''c-b'', py ''c-a'']"
  "map dc_created_at (projr (get_document_chunks late_a_env demo_world (py ''d-1''))) = [0, 0]"
  by (simp_all add: get_document_chunks_def late_a_env_def demo_env_def demo_world_def
      empty_world_def row_a_def row_b_def row_c_def doc_chunk_of_def py_def)

section \<open>Seeding\<close>

lemma seed_available:
  assumes "seed_corpus_if_empty e w = Some (Inr n, w1)"
  shows "available w1"
  using assms
  by (auto simp: seed_corpus_if_empty_def seed_corpus_def get_stats_def get_chunk_count_def
      acquire_advisory_lock_def release_advisory_lock_def Let_def
      split: if_splits option.splits sum.splits prod.splits bool.splits)

text \<open>
  C7, as the code has it: after a first call of \<open>seed_corpus_if_empty\<close> that returns,
  a second call returns 0 and changes nothing when the store holds a chunk, and runs
  the seeding again when the store is empty.
\<close>

theorem seed_corpus_if_empty_again:
  assumes "seed_corpus_if_empty e w = Some (Inr n, w1)"
  shows "(rows w1 \<noteq> [] \<longrightarrow> seed_corpus_if_empty e w1 = Some (Inr 0, w1))
       \<and> (rows w1 = [] \<longrightarrow> seed_corpus_if_empty e w1 = seed_corpus e w1)"
proof (intro conjI impI)
  assume "rows w1 \<noteq> []"
  with seed_available [OF assms] show "seed_corpus_if_empty e w1 = Some (Inr 0, w1)"
    by (simp add: seed_corpus_if_empty_def get_stats_def get_chunk_count_def)
next
  assume "rows w1 = []"
  then show "seed_corpus_if_empty e w1 = seed_corpus e w1"
    by (simp add: seed_corpus_if_empty_def get_stats_def get_chunk_count_def)
qed

lemma shipped_documents:
  "sample_documents shipped_env =
     Some [\<lparr>doc_title = Some (py ''Sample''), doc_content = Some padded_text, doc_metadata = None\<rparr>]"
  by (simp add: shipped_env_def as_shipped_def demo_env_def)

lemma shipped_seed:
  assumes "available w" and "rows w = []" and "\<not> lock_elsewhere w"
  shows "seed_corpus shipped_env w =
           Some (Inr 0, w\<lparr>uuid_draws := Suc (Suc (uuid_draws w)), embed_calls := Suc (embed_calls w)\<rparr>)"
proof -
  have ing: "ingest_document shipped_env (w\<lparr>locks_held := Suc (locks_held w)\<rparr>) padded_text md =
     Some (Inl ProgrammingError,
           w\<lparr>locks_held := Suc (locks_held w), uuid_draws := Suc (Suc (uuid_draws w)),
             embed_calls := Suc (embed_calls w)\<rparr>)" for md
    using shipped_ingest [of "w\<lparr>locks_held := Suc (locks_held w)\<rparr>" md] assms by simp
  from assms show ?thesis
    by (simp add: seed_corpus_def acquire_advisory_lock_def release_advisory_lock_def
        shipped_documents ing)
qed

lemma filled_seed:
  "seed_corpus_if_empty shipped_env demo_world = Some (Inr 0, demo_world)"
  by (simp add: seed_corpus_if_empty_def get_stats_def get_chunk_count_def demo_world_def
      empty_world_def)

lemma empty_seed:
  "seed_corpus_if_empty shipped_env empty_world =
     Some (Inr 0, empty_world\<lparr>uuid_draws := 2, embed_calls := 1\<rparr>)"
  "seed_corpus shipped_env (empty_world\<lparr>uuid_draws := 2, embed_calls := 1\<rparr>) =
     Some (Inr 0, empty_world\<lparr>uuid_draws := 4, embed_calls := 2\<rparr>)"
  using shipped_seed [of empty_world]
    shipped_seed [of "empty_world\<lparr>uuid_draws := 2, embed_calls := 1\<rparr>"]
  by (simp_all add: seed_corpus_if_empty_def get_stats_def get_chunk_count_def empty_world_def)

theorem seed_corpus_if_empty_again_witness:
  "seed_corpus_if_empty shipped_env demo_world = Some (Inr 0, demo_world)
   \<and> rows demo_world \<noteq> []
   \<and> seed_corpus_if_empty shipped_env empty_world =
       Some (Inr 0, empty_world\<lparr>uuid_draws := 2, embed_calls := 1\<rparr>)
   \<and> rows (empty_world\<lparr>uuid_draws := 2, embed_calls := 1\<rparr>) = []
   \<and> seed_corpus_if_empty shipped_env (empty_world\<lparr>uuid_draws := 2, embed_calls := 1\<rparr>) =
       seed_corpus shipped_env (empty_world\<lparr>uuid_draws := 2, embed_calls := 1\<rparr>)
   \<and> seed_corpus shipped_env (empty_world\<lparr>uuid_draws := 2, embed_calls := 1\<rparr>) =
       Some (Inr 0, empty_world\<lparr>uuid_draws := 4, embed_calls := 2\<rparr>)"
proof -
  have filled: "rows demo_world \<noteq> []" by (simp add: demo_world_def)
  have empty: "rows (empty_world\<lparr>uuid_draws := 2, embed_calls := 1\<rparr>) = []"
    by (simp add: empty_world_def)
  from seed_corpus_if_empty_again [OF filled_seed] seed_corpus_if_empty_again [OF empty_seed(1)]
    filled empty filled_seed empty_seed
  show ?thesis by simp
qed

lemma short_note_chunks: "chunk_text default_settings (py ''A short note.'') = Some []"
  by code_simp

lemma short_ingest:
  assumes "available w" and "rows w = []"
  shows "ingest_document short_env w (py ''A short note.'') md =
     Some (Inr (uuid4 short_env (uuid_draws w)), commit (w\<lparr>uuid_draws := Suc (uuid_draws w)\<rparr>))"
  using assms
  by (simp add: ingest_document_def demo_cfg short_note_chunks Let_def batch_add_chunks_def
      get_chunk_count_def commit_def)

lemma short_seed:
  assumes "available w" and "rows w = []" and "\<not> lock_elsewhere w"
  shows "seed_corpus_if_empty short_env w =
           Some (Inr 1, w\<lparr>clock := Suc (clock w), uuid_draws := Suc (uuid_draws w)\<rparr>)"
proof -
  have docs: "sample_documents short_env =
       Some [\<lparr>doc_title = Some (py ''Note''), doc_content = Some (py ''A short note.''),
              doc_metadata = None\<rparr>]"
    by (simp add: short_env_def)
  have ing: "ingest_document short_env (w\<lparr>locks_held := Suc (locks_held w)\<rparr>) (py ''A short note.'') md =
     Some (Inr (uuid4 short_env (uuid_draws w)),
           commit (w\<lparr>locks_held := Suc (locks_held w), uuid_draws := Suc (uuid_draws w)\<rparr>))" for md
    using short_ingest [of "w\<lparr>locks_held := Suc (locks_held w)\<rparr>" md] assms by simp
  from assms show ?thesis
    by (simp add: seed_corpus_if_empty_def seed_corpus_def get_stats_def get_chunk_count_def
        acquire_advisory_lock_def release_advisory_lock_def docs ing commit_def)
qed

text \<open>
  C7 as stated fails: when the only sample document is too short to give a chunk, the
  first call ingests it, returns 1 and leaves the store empty; the second call finds
  the chunk count zero, ingests the document again and returns 1.
\<close>

theorem seed_corpus_if_empty_again_counterexample:
  "seed_corpus_if_empty short_env empty_world =
     Some (Inr 1, empty_world\<lparr>clock := 1, uuid_draws := 1\<rparr>)
   \<and> rows (empty_world\<lparr>clock := 1, uuid_draws := 1\<rparr>) = []
   \<and> seed_corpus_if_empty short_env (empty_world\<lparr>clock := 1, uuid_draws := 1\<rparr>) =
     Some (Inr 1, empty_world\<lparr>clock := 2, uuid_draws := 2\<rparr>)"
proof -
  have 1: "seed_corpus_if_empty short_env empty_world =
     Some (Inr 1, empty_world\<lparr>clock := 1, uuid_draws := 1\<rparr>)"
    using short_seed [of empty_world] by (simp add: empty_world_def)
  have 2: "seed_corpus_if_empty short_env (empty_world\<lparr>clock := 1, uuid_draws := 1\<rparr>) =
     Some (Inr 1, empty_world\<lparr>clock := 2, uuid_draws := 2\<rparr>)"
    using short_seed [of "empty_world\<lparr>clock := 1, uuid_draws := 1\<rparr>"] by (simp add: empty_world_def)
  from 1 2 show ?thesis by (simp add: empty_world_def)
qed

end
